theory Spec2Isabelle
  imports Complex_Main
begin

section \<open>Source-to-sampler connection topology of \<open>sbs/db/sources.py\<close>\<close>

text \<open>
  The development follows \<^verbatim>\<open>src/sbs/db/sources.py\<close>.  Weights, rates and times are Python
  floats; they are modelled as \<^typ>\<open>real\<close>, so only comparisons and equality of finite numbers
  are captured (no NaN, no rounding).  One-dimensional numpy arrays are lists, \<^verbatim>\<open>size\<close> and
  \<^verbatim>\<open>len\<close> are \<^const>\<open>length\<close>.
\<close>

subsection \<open>Errors\<close>

datatype error =
    ValueError string
  | IndexError
  | AttributeError string
  | UnknownModelName string
  | DimensionMismatch

subsection \<open>numpy helpers\<close>

text \<open>\<^verbatim>\<open>np.cumsum\<close>: running totals, left to right.\<close>

fun cumsum_from :: "nat \<Rightarrow> nat list \<Rightarrow> nat list" where
  "cumsum_from acc [] = []"
| "cumsum_from acc (n # ns) = (acc + n) # cumsum_from (acc + n) ns"

definition cumsum :: "nat list \<Rightarrow> nat list" where
  "cumsum ns = cumsum_from 0 ns"

text \<open>\<^verbatim>\<open>np.where(mask)[0]\<close>: the indices at which a boolean array is true, ascending.\<close>

definition np_where :: "bool list \<Rightarrow> nat list" where
  "np_where bs = filter (\<lambda>j. bs ! j) [0..<length bs]"

text \<open>\<^verbatim>\<open>np.hstack\<close> of a list of one-dimensional arrays; numpy refuses an empty list.\<close>

definition hstack :: "'a list list \<Rightarrow> error + 'a list" where
  "hstack arrays =
     (if arrays = [] then Inl (ValueError ''need at least one array to concatenate'')
      else Inr (concat arrays))"

text \<open>\<^verbatim>\<open>np.all\<close> of a boolean array (true on the empty array).\<close>

definition np_all :: "bool list \<Rightarrow> bool" where
  "np_all bs = list_all (\<lambda>b. b) bs"

text \<open>
  \<^verbatim>\<open>np.unique(a, return_inverse=True)\<close>: the sorted distinct values of \<open>a\<close> and, for every
  position of \<open>a\<close>, the index of its value among them.
\<close>

fun index_of :: "'a \<Rightarrow> 'a list \<Rightarrow> nat" where
  "index_of x [] = 0"
| "index_of x (y # ys) = (if x = y then 0 else Suc (index_of x ys))"

definition np_unique :: "real list \<Rightarrow> real list \<times> nat list" where
  "np_unique a = (let u = sort (remdups a) in (u, map (\<lambda>x. index_of x u) a))"

text \<open>
  Fancy indexing \<^verbatim>\<open>a[idx]\<close> with an integer index array: \<^verbatim>\<open>IndexError\<close> as soon as one index
  is out of range.
\<close>

definition take_idx :: "'a list \<Rightarrow> nat list \<Rightarrow> error + 'a list" where
  "take_idx a idx =
     (if list_all (\<lambda>i. i < length a) idx then Inr (map (\<lambda>i. a ! i) idx) else Inl IndexError)"




text \<open>\<^verbatim>\<open>int(np.around(x))\<close>: rounding to the nearest integer, a tie going to the even one.\<close>

definition np_around :: "real \<Rightarrow> int" where
  "np_around x =
     (let f = \<lfloor>x\<rfloor>; d = x - of_int f in
      if d < 1 / 2 then f
      else if 1 / 2 < d then f + 1
      else if even f then f else f + 1)"

subsection \<open>The offset index\<close>

text \<open>
  \<^verbatim>\<open>idx_parrot_to_sampler\<close>, the closure defined alike in
  \<^verbatim>\<open>PoissonSourceConfiguration.create_nest_optimized\<close>,
  \<^verbatim>\<open>SinusPoissonSourceConfiguration.create_nest\<close> and
  \<^verbatim>\<open>MultiPoissonVarRateSourceConfiguration.create_nest\<close>:
  \<^verbatim>\<open>np.where(idx < offset_per_sampler)[0][0]\<close>.  The final \<^verbatim>\<open>[0]\<close> raises when no offset
  exceeds \<open>idx\<close>.
\<close>

definition idx_parrot_to_sampler :: "nat list \<Rightarrow> nat \<Rightarrow> error + nat" where
  "idx_parrot_to_sampler offset_per_sampler idx =
     (case np_where (map (\<lambda>off. idx < off) offset_per_sampler) of
        [] \<Rightarrow> Inl IndexError
      | j # _ \<Rightarrow> Inr j)"

text \<open>The comprehension \<^verbatim>\<open>[idx_parrot_to_sampler(i) for i in xrange(n)]\<close>.\<close>

fun idx_samplers_of :: "nat list \<Rightarrow> nat list \<Rightarrow> error + nat list" where
  "idx_samplers_of offset_per_sampler [] = Inr []"
| "idx_samplers_of offset_per_sampler (i # is) =
     (case idx_parrot_to_sampler offset_per_sampler i of
        Inl e \<Rightarrow> Inl e
      | Inr j \<Rightarrow> (case idx_samplers_of offset_per_sampler is of
                   Inl e \<Rightarrow> Inl e
                 | Inr js \<Rightarrow> Inr (j # js)))"

subsection \<open>Source configurations and samplers\<close>

record PoissonSourceConfiguration =
  poisson_rates :: "real list"
  poisson_weights :: "real list"

record SinusPoissonSourceConfiguration =
  sinus_weights :: "real list"
  sinus_rates :: "real list"
  sinus_amplitudes :: "real list"
  sinus_frequencies :: "real list"
  sinus_phases :: "real list"
  individual_spike_trains :: bool

text \<open>
  A sampler's \<^verbatim>\<open>source_config\<close> is an object of one of the configuration classes; the two
  classes whose NEST code path is embedded here are the constructors.  Attribute access is
  duck-typed in the source: \<^verbatim>\<open>rates\<close> and \<^verbatim>\<open>weights\<close> exist on both classes, the other
  attributes on the sinusoidal class only.
\<close>

datatype source_config =
    Poisson PoissonSourceConfiguration
  | SinusPoisson SinusPoissonSourceConfiguration

datatype config_class = PoissonClass | SinusPoissonClass

fun class_of :: "source_config \<Rightarrow> config_class" where
  "class_of (Poisson c) = PoissonClass"
| "class_of (SinusPoisson c) = SinusPoissonClass"

fun rates :: "source_config \<Rightarrow> real list" where
  "rates (Poisson c) = poisson_rates c"
| "rates (SinusPoisson c) = sinus_rates c"

fun weights :: "source_config \<Rightarrow> real list" where
  "weights (Poisson c) = poisson_weights c"
| "weights (SinusPoisson c) = sinus_weights c"

text \<open>
  The attributes that only \<^verbatim>\<open>SinusPoissonSourceConfiguration\<close> has: reading one of them from
  an object of the other class raises \<^verbatim>\<open>AttributeError\<close>.
\<close>

fun sinus_attr ::
  "string \<Rightarrow> (SinusPoissonSourceConfiguration \<Rightarrow> 'a) \<Rightarrow> source_config \<Rightarrow> error + 'a" where
  "sinus_attr name f (Poisson c) = Inl (AttributeError name)"
| "sinus_attr name f (SinusPoisson c) = Inr (f c)"

text \<open>Sequencing of computations that may raise, and a list comprehension over them.\<close>

definition bind_err :: "error + 'a \<Rightarrow> ('a \<Rightarrow> error + 'b) \<Rightarrow> error + 'b" where
  "bind_err r f = (case r of Inl e \<Rightarrow> Inl e | Inr x \<Rightarrow> f x)"

fun collect :: "(error + 'a) list \<Rightarrow> error + 'a list" where
  "collect [] = Inr []"
| "collect (r # rs) =
     (case r of
        Inl e \<Rightarrow> Inl e
      | Inr x \<Rightarrow> (case collect rs of Inl e \<Rightarrow> Inl e | Inr xs \<Rightarrow> Inr (x # xs)))"

text \<open>
  A sampler carries its source configuration and the id of its neuron in the simulator.  The
  \<^verbatim>\<open>samplers\<close> argument of the creation routines is either one PyNN population (its cells)
  that shares the configuration \<^verbatim>\<open>self\<close>, or a list of sampler objects.
\<close>

record sampler =
  source_config :: source_config
  cell :: nat

datatype samplers = BasePopulation "nat list" | SamplerList "sampler list"

text \<open>
  \<^verbatim>\<open>np.hstack([p.all_cells.tolist() for p in list_pop])\<close> after
  \<^verbatim>\<open>get_population_from_samplers\<close>: the neuron ids of the targets, in order.  The PyNN
  population objects themselves are outside this file; each sampler is taken to own one cell.
\<close>

fun gid_samplers_of :: "samplers \<Rightarrow> nat list" where
  "gid_samplers_of (BasePopulation cells) = cells"
| "gid_samplers_of (SamplerList ss) = map cell ss"


subsection \<open>Parameter verification at construction\<close>





subsection \<open>The simulator backend\<close>

text \<open>
  The NEST kernel as far as the creation routines use it: the model names it knows
  (\<^verbatim>\<open>nest.Models()\<close>), the number of nodes created so far, and the log of the calls made.
  \<^verbatim>\<open>nest.Create\<close> hands out consecutive node ids and fails on a model name that is not
  known; a one-to-one \<^verbatim>\<open>nest.Connect\<close> needs as many sources as targets (and as many weights,
  when an array of weights is given) and makes one connection per position.
\<close>

datatype nest_call =
    Create string nat
  | SetStatus "nat list" "(string \<times> real) list list"
  | Connect "nat list" "nat list" string "real list option"

record nest =
  Models :: "string list"
  num_nodes :: nat
  calls :: "nest_call list"

definition nest_Create :: "string \<Rightarrow> nat \<Rightarrow> nest \<Rightarrow> (error + nat list) \<times> nest" where
  "nest_Create model n st =
     (if model \<in> set (Models st)
        then (Inr [num_nodes st + 1 ..< num_nodes st + 1 + n],
              st\<lparr>num_nodes := num_nodes st + n, calls := calls st @ [Create model n]\<rparr>)
      else (Inl (UnknownModelName model), st))"

definition nest_SetStatus :: "nat list \<Rightarrow> (string \<times> real) list list \<Rightarrow> nest \<Rightarrow> nest" where
  "nest_SetStatus gids params st = st\<lparr>calls := calls st @ [SetStatus gids params]\<rparr>"

definition nest_Connect_one_to_one ::
  "nat list \<Rightarrow> nat list \<Rightarrow> real list option \<Rightarrow> nest \<Rightarrow> (error + (nat \<times> nat) list) \<times> nest" where
  "nest_Connect_one_to_one pre post w st =
     (if length pre \<noteq> length post \<or> (case w of None \<Rightarrow> False | Some ws \<Rightarrow> length ws \<noteq> length pre)
        then (Inl DimensionMismatch, st)
      else (Inr (zip pre post), st\<lparr>calls := calls st @ [Connect pre post ''one_to_one'' w]\<rparr>))"

subsection \<open>Deduplication of parameter tuples\<close>

text \<open>
  Modelled from the spec: \<^verbatim>\<open>utils.group_identical_parameters\<close> is called by
  \<^verbatim>\<open>SinusPoissonSourceConfiguration.create_nest\<close> but its module is not among the sources.
  Following the deduplicator contract, it yields one pair per distinct parameter tuple, in
  order of first appearance: the positions that hold the tuple, and the tuple.
\<close>

fun first_occurrences :: "'a list \<Rightarrow> 'a list \<Rightarrow> 'a list" where
  "first_occurrences seen [] = []"
| "first_occurrences seen (x # xs) =
     (if x \<in> set seen then first_occurrences seen xs else x # first_occurrences (x # seen) xs)"

definition group_identical_parameters :: "'a list \<Rightarrow> (nat list \<times> 'a) list" where
  "group_identical_parameters ps =
     map (\<lambda>p. (filter (\<lambda>k. ps ! k = p) [0..<length ps], p)) (first_occurrences [] ps)"

text \<open>
  \<^verbatim>\<open>get_index\<close>, the closure of \<^verbatim>\<open>FixedSpikeTrainConfiguration.create_connect_regular\<close> over the
  list \<^verbatim>\<open>all_spike_times\<close>: the position of the first stored array equal to the argument
  (same size, all entries equal), or the argument is appended and its new position returned.
\<close>

fun find_spike_times :: "real list \<Rightarrow> real list list \<Rightarrow> nat option" where
  "find_spike_times spike_times [] = None"
| "find_spike_times spike_times (st # rest) =
     (if length spike_times = length st \<and> st = spike_times then Some 0
      else map_option Suc (find_spike_times spike_times rest))"

definition get_index :: "real list \<Rightarrow> real list list \<Rightarrow> nat \<times> real list list" where
  "get_index spike_times all_spike_times =
     (case find_spike_times spike_times all_spike_times of
        Some i \<Rightarrow> (i, all_spike_times)
      | None \<Rightarrow> (length (all_spike_times @ [spike_times]) - 1, all_spike_times @ [spike_times]))"

text \<open>The calls of \<^verbatim>\<open>get_index\<close> made one after the other on a sequence of spike-time arrays.\<close>

fun get_index_all :: "real list list \<Rightarrow> real list list \<Rightarrow> nat list \<times> real list list" where
  "get_index_all [] all_spike_times = ([], all_spike_times)"
| "get_index_all (spike_times # rest) all_spike_times =
     (let (i, all1) = get_index spike_times all_spike_times;
          (is, all2) = get_index_all rest all1
      in (i # is, all2))"

text \<open>
  \<^verbatim>\<open>MultiPoissonVarRateSourceConfiguration._consolidate_sources\<close>.  A rate-change array is a
  list of (time, rate) rows.  For every source the inner loop walks the consolidated entries
  and appends the position of each entry with the same weight and the same rate changes; the
  loop has no \<^verbatim>\<open>break\<close>, so its \<^verbatim>\<open>else\<close> branch runs after every walk and appends the
  source as a new entry.
\<close>

type_synonym rate_changes = "(real \<times> real) list"

definition duplicate_positions ::
  "real \<Rightarrow> rate_changes \<Rightarrow> real list \<Rightarrow> rate_changes list \<Rightarrow> nat list" where
  "duplicate_positions w rc weight_per_consolidated_source rate_changes_per_consolidated_source =
     map fst (filter (\<lambda>(i, w_cons, rc_cons). \<not> w \<noteq> w_cons \<and> \<not> rc \<noteq> rc_cons)
       (zip [0..<length (zip weight_per_consolidated_source rate_changes_per_consolidated_source)]
            (zip weight_per_consolidated_source rate_changes_per_consolidated_source)))"

fun consolidate_loop ::
  "(real \<times> rate_changes) list \<Rightarrow> real list \<times> rate_changes list \<times> nat list
     \<Rightarrow> real list \<times> rate_changes list \<times> nat list" where
  "consolidate_loop [] acc = acc"
| "consolidate_loop ((w, rc) # rest) (ws_cons, rcs_cons, idx) =
     consolidate_loop rest
       (ws_cons @ [w], rcs_cons @ [rc],
        idx @ duplicate_positions w rc ws_cons rcs_cons @ [length ws_cons])"

definition consolidate_sources ::
  "real list \<Rightarrow> rate_changes list \<Rightarrow> real list \<times> rate_changes list \<times> nat list" where
  "consolidate_sources weights_per_source rate_changes_per_source =
     consolidate_loop (zip weights_per_source rate_changes_per_source) ([], [], [])"

subsection \<open>Receptor type from the sign of a weight\<close>

datatype receptor_type = inhibitory | excitatory

text \<open>
  \<^verbatim>\<open>connect_one_to_one\<close>, the body of its loop for sampler \<open>j\<close>:
  \<^verbatim>\<open>is_exc = np.array(s_weights > 0., dtype=int)\<close>, then for \<^verbatim>\<open>i_r, rectype\<close> in
  \<^verbatim>\<open>enumerate(["inhibitory", "excitatory"])\<close> the connection list of the positions where
  \<^verbatim>\<open>is_exc == i_r\<close>.
\<close>

definition is_exc_array :: "real list \<Rightarrow> nat list" where
  "is_exc_array s_weights = map (\<lambda>w. if w > 0 then 1 else 0) s_weights"

definition one_to_one_conn_list ::
  "bool \<Rightarrow> nat \<Rightarrow> real list \<Rightarrow> nat \<Rightarrow> (nat \<times> nat \<times> real) list" where
  "one_to_one_conn_list conductance_based j s_weights i_r =
     map (\<lambda>i. (i, j, if conductance_based then \<bar>s_weights ! i\<bar> else s_weights ! i))
       (np_where (map (\<lambda>e. e = i_r) (is_exc_array s_weights)))"

definition connect_one_to_one_sampler ::
  "bool \<Rightarrow> nat \<Rightarrow> real list \<Rightarrow> (receptor_type \<times> (nat \<times> nat \<times> real) list) list" where
  "connect_one_to_one_sampler conductance_based j s_weights =
     map (\<lambda>(i_r, rectype). (rectype, one_to_one_conn_list conductance_based j s_weights i_r))
       (zip [0..<2] [inhibitory, excitatory])"

text \<open>
  \<^verbatim>\<open>connect_one_to_one\<close>: the projections made for all samplers, in order of creation;
  \<open>conductance_based\<close> gives the flag of the \<open>j\<close>-th target population.
\<close>

definition connect_one_to_one ::
  "(nat \<Rightarrow> bool) \<Rightarrow> real list list \<Rightarrow> (receptor_type \<times> (nat \<times> nat \<times> real) list) list" where
  "connect_one_to_one conductance_based weights_per_sampler =
     concat (map (\<lambda>(j, s_weights). connect_one_to_one_sampler (conductance_based j) j s_weights)
       (zip [0..<length weights_per_sampler] weights_per_sampler))"

text \<open>
  \<^verbatim>\<open>FixedSpikeTrainConfiguration.connect_sources_regular\<close>, branch of one population for all
  samplers: the two connection lists, \<^verbatim>\<open>weight < 0\<close> for \<^verbatim>\<open>"inh"\<close> and \<^verbatim>\<open>weight >= 0\<close> for
  \<^verbatim>\<open>"exc"\<close>, each projected with the receptor type its key maps to.
\<close>

definition trans :: "bool \<Rightarrow> real \<Rightarrow> real" where
  "trans conductance_based w = (if conductance_based then \<bar>w\<bar> else w)"

definition connect_sources_regular ::
  "bool \<Rightarrow> (nat \<times> nat \<times> real) list \<Rightarrow> (receptor_type \<times> (nat \<times> nat \<times> real) list) list" where
  "connect_sources_regular conductance_based conn_list =
     zip [inhibitory, excitatory]
       [map (\<lambda>(pre, post, weight). (pre, post, trans conductance_based weight))
          (filter (\<lambda>(pre, post, weight). weight < 0) conn_list),
        map (\<lambda>(pre, post, weight). (pre, post, trans conductance_based weight))
          (filter (\<lambda>(pre, post, weight). weight \<ge> 0) conn_list)]"

text \<open>
  The branch of one population per sampler: for the \<open>j\<close>-th population the same two lists,
  restricted to \<^verbatim>\<open>post == j\<close> and with target index \<open>0\<close>.
\<close>

definition connect_sources_regular_list ::
  "bool list \<Rightarrow> (nat \<times> nat \<times> real) list \<Rightarrow> (receptor_type \<times> (nat \<times> nat \<times> real) list) list" where
  "connect_sources_regular_list population conn_list =
     concat (map (\<lambda>(j, conductance_based).
       zip [inhibitory, excitatory]
         [map (\<lambda>(pre, post, weight). (pre, 0, trans conductance_based weight))
            (filter (\<lambda>(pre, post, weight). weight < 0 \<and> post = j) conn_list),
          map (\<lambda>(pre, post, weight). (pre, 0, trans conductance_based weight))
            (filter (\<lambda>(pre, post, weight). weight \<ge> 0 \<and> post = j) conn_list)])
       (zip [0..<length population] population))"

text \<open>
  \<^verbatim>\<open>get_distribution_parameters\<close> of \<^verbatim>\<open>PoissonSourceConfiguration\<close> and of
  \<^verbatim>\<open>FixedSpikeTrainConfiguration\<close>: \<^verbatim>\<open>is_exc = self.weights > 0.\<close>,
  \<^verbatim>\<open>is_inh = np.logical_not(is_exc)\<close>; the weights selected by each mask.
\<close>

definition weights_exc :: "real list \<Rightarrow> real list" where
  "weights_exc ws = map snd (filter fst (zip (map (\<lambda>w. w > 0) ws) ws))"

definition weights_inh :: "real list \<Rightarrow> real list" where
  "weights_inh ws = map snd (filter fst (zip (map (\<lambda>b. \<not> b) (map (\<lambda>w. w > 0) ws)) ws))"

subsection \<open>Creation of the sources in NEST\<close>

text \<open>
  What a creation routine has gathered from its samplers before it touches the simulator,
  and what it returns: the \<^verbatim>\<open>sources\<close> dictionary and the two connection lists.  The unit
  conversion \<^verbatim>\<open>weight_pynn_to_nest\<close> lives in a module that is not among the sources; it is a
  parameter \<open>w2n\<close>, applied to every weight.
\<close>

record gathered =
  num_sources_per_sampler :: "nat list"
  g_rates :: "real list"
  g_weights :: "real list"
  g_amplitudes :: "real list"
  g_frequencies :: "real list"
  g_phases :: "real list"
  g_individual_spike_trains :: bool

record created =
  generators :: "nat list"
  parrots :: "nat list"
  generator_to_parrot :: "(nat \<times> nat) list"
  parrot_to_sampler :: "(nat \<times> nat) list"
  connection_weights :: "real list"

text \<open>
  \<^verbatim>\<open>PoissonSourceConfiguration.create_nest_optimized\<close>, from the test on the class of
  \<^verbatim>\<open>samplers\<close> to the two guards on the weights of a population.
\<close>

definition poisson_gather :: "PoissonSourceConfiguration \<Rightarrow> samplers \<Rightarrow> error + gathered" where
  "poisson_gather self samplers =
     (case samplers of
        SamplerList ss \<Rightarrow>
          bind_err (hstack (map (\<lambda>s. rates (source_config s)) ss)) (\<lambda>rs.
          bind_err (hstack (map (\<lambda>s. weights (source_config s)) ss)) (\<lambda>ws.
            Inr \<lparr>num_sources_per_sampler = map (\<lambda>s. length (rates (source_config s))) ss,
                 g_rates = rs, g_weights = ws, g_amplitudes = [], g_frequencies = [],
                 g_phases = [], g_individual_spike_trains = True\<rparr>))
      | BasePopulation cells \<Rightarrow>
          bind_err (hstack (map (\<lambda>s. poisson_rates self) cells)) (\<lambda>rs.
          bind_err (hstack (map (\<lambda>s. poisson_weights self) cells)) (\<lambda>ws.
            if np_all (map (\<lambda>w. w > 0) ws)
              then Inl (ValueError ''Noise weights are all excitatory. Aborting.'')
            else if np_all (map (\<lambda>w. w < 0) ws)
              then Inl (ValueError ''Noise weights are all inhibitory. Aborting.'')
            else
              Inr \<lparr>num_sources_per_sampler = map (\<lambda>s. 0 + length (poisson_rates self)) cells,
                   g_rates = rs, g_weights = ws, g_amplitudes = [], g_frequencies = [],
                   g_phases = [], g_individual_spike_trains = True\<rparr>)))"

text \<open>The choice of the generator model at the head of the routine.\<close>

definition poisson_source_model :: "nest \<Rightarrow> string \<times> (string \<times> real) list" where
  "poisson_source_model st =
     (if ''lookahead_poisson_generator'' \<in> set (Models st)
        then (''lookahead_poisson_generator'', [(''steps_lookahead'', 10000)])
      else (''poisson_generator'', []))"

text \<open>
  The last steps, shared word for word by both routines: the generators picked per parrot
  are connected one-to-one to the parrots, every parrot is resolved to its sampler through
  the offset index, and the parrots are connected one-to-one to these samplers with the
  converted weights.
\<close>

definition connect_parrots ::
  "(real \<Rightarrow> real) \<Rightarrow> samplers \<Rightarrow> gathered \<Rightarrow> nat list \<Rightarrow> nat list \<Rightarrow> nat list \<Rightarrow> nest
     \<Rightarrow> (error + created) \<times> nest" where
  "connect_parrots w2n samplers g gid_generators gid_parrots idx_parrot_to_generator st =
     (let offset_per_sampler = cumsum (num_sources_per_sampler g);
          gid_samplers = gid_samplers_of samplers
      in case take_idx gid_generators idx_parrot_to_generator of
           Inl e \<Rightarrow> (Inl e, st)
         | Inr pre \<Rightarrow>
        (case nest_Connect_one_to_one pre gid_parrots None st of
           (Inl e, st1) \<Rightarrow> (Inl e, st1)
         | (Inr g2p, st1) \<Rightarrow>
        (case idx_samplers_of offset_per_sampler [0..<length gid_parrots] of
           Inl e \<Rightarrow> (Inl e, st1)
         | Inr idx_samplers \<Rightarrow>
        (case take_idx gid_samplers idx_samplers of
           Inl e \<Rightarrow> (Inl e, st1)
         | Inr connect_gid_samplers \<Rightarrow>
        (case nest_Connect_one_to_one gid_parrots connect_gid_samplers
                (Some (map w2n (g_weights g))) st1 of
           (Inl e, st2) \<Rightarrow> (Inl e, st2)
         | (Inr p2s, st2) \<Rightarrow>
             (Inr \<lparr>generators = gid_generators, parrots = gid_parrots,
                   generator_to_parrot = g2p, parrot_to_sampler = p2s,
                   connection_weights = map w2n (g_weights g)\<rparr>, st2))))))"

text \<open>The rest of \<^verbatim>\<open>create_nest_optimized\<close>, from the deduplication of the rates on.\<close>

definition poisson_build ::
  "(real \<Rightarrow> real) \<Rightarrow> real \<Rightarrow> samplers \<Rightarrow> gathered \<Rightarrow> nest \<Rightarrow> (error + created) \<times> nest" where
  "poisson_build w2n duration samplers g st =
     (let (uniq_rates, idx_parrot_to_generator) = np_unique (g_rates g);
          (source_model, source_model_kwargs) = poisson_source_model st
      in case nest_Create source_model (length uniq_rates) st of
           (Inl e, st1) \<Rightarrow> (Inl e, st1)
         | (Inr gid_generators, st1) \<Rightarrow>
        (case nest_Create ''parrot_neuron'' (length (g_rates g)) st1 of
           (Inl e, st2) \<Rightarrow> (Inl e, st2)
         | (Inr gid_parrots, st2) \<Rightarrow>
             (let st3 = nest_SetStatus gid_generators
                          (map (\<lambda>r. [(''rate'', r), (''start'', 0), (''stop'', duration)]) uniq_rates)
                          st2;
                  st4 = (if length source_model_kwargs > 0
                           then nest_SetStatus gid_generators [source_model_kwargs] st3
                         else st3)
              in connect_parrots w2n samplers g gid_generators gid_parrots
                   idx_parrot_to_generator st4)))"

definition create_nest_optimized ::
  "PoissonSourceConfiguration \<Rightarrow> (real \<Rightarrow> real) \<Rightarrow> real \<Rightarrow> samplers \<Rightarrow> nest
     \<Rightarrow> (error + created) \<times> nest" where
  "create_nest_optimized self w2n duration samplers st =
     (case poisson_gather self samplers of
        Inl e \<Rightarrow> (Inl e, st)
      | Inr g \<Rightarrow> poisson_build w2n duration samplers g st)"

text \<open>
  \<^verbatim>\<open>SinusPoissonSourceConfiguration.create_nest\<close>, up to the guards: the arrays of all
  samplers side by side, the common \<^verbatim>\<open>individual_spike_trains\<close> setting, and for a population
  the two guards on its weights.
\<close>

definition hstack_attr ::
  "string \<Rightarrow> (SinusPoissonSourceConfiguration \<Rightarrow> real list) \<Rightarrow> sampler list \<Rightarrow> error + real list" where
  "hstack_attr name f ss =
     bind_err (collect (map (\<lambda>s. sinus_attr name f (source_config s)) ss)) hstack"

definition sinus_gather :: "SinusPoissonSourceConfiguration \<Rightarrow> samplers \<Rightarrow> error + gathered" where
  "sinus_gather self samplers =
     (case samplers of
        SamplerList ss \<Rightarrow>
          bind_err (hstack (map (\<lambda>s. rates (source_config s)) ss)) (\<lambda>rs.
          bind_err (hstack (map (\<lambda>s. weights (source_config s)) ss)) (\<lambda>ws.
          bind_err (hstack_attr ''amplitudes'' sinus_amplitudes ss) (\<lambda>as.
          bind_err (hstack_attr ''frequencies'' sinus_frequencies ss) (\<lambda>fs.
          bind_err (hstack_attr ''phases'' sinus_phases ss) (\<lambda>ps.
          bind_err (case ss of
                      [] \<Rightarrow> Inl IndexError
                    | s # _ \<Rightarrow> sinus_attr ''individual_spike_trains'' individual_spike_trains
                                (source_config s)) (\<lambda>ist.
          bind_err (collect (map (\<lambda>s. sinus_attr ''individual_spike_trains''
                                        individual_spike_trains (source_config s)) ss)) (\<lambda>ists.
            if \<not> list_all (\<lambda>i. ist = i) ists
              then Inl (ValueError
                (''All SinusPoissonSourceConfigurations must have the '' @
                 ''same 'individual_spike_trains' setting!''))
            else
              Inr \<lparr>num_sources_per_sampler = map (\<lambda>s. length (rates (source_config s))) ss,
                   g_rates = rs, g_weights = ws, g_amplitudes = as, g_frequencies = fs,
                   g_phases = ps, g_individual_spike_trains = ist\<rparr>)))))))
      | BasePopulation cells \<Rightarrow>
          bind_err (hstack (map (\<lambda>s. sinus_rates self) cells)) (\<lambda>rs.
          bind_err (hstack (map (\<lambda>s. sinus_weights self) cells)) (\<lambda>ws.
          bind_err (hstack (map (\<lambda>s. sinus_amplitudes self) cells)) (\<lambda>as.
          bind_err (hstack (map (\<lambda>s. sinus_frequencies self) cells)) (\<lambda>fs.
          bind_err (hstack (map (\<lambda>s. sinus_phases self) cells)) (\<lambda>ps.
            if np_all (map (\<lambda>w. w > 0) ws)
              then Inl (ValueError ''Noise weights are all excitatory. Aborting.'')
            else if np_all (map (\<lambda>w. w < 0) ws)
              then Inl (ValueError ''Noise weights are all inhibitory. Aborting.'')
            else
              Inr \<lparr>num_sources_per_sampler = map (\<lambda>s. 0 + length (sinus_rates self)) cells,
                   g_rates = rs, g_weights = ws, g_amplitudes = as, g_frequencies = fs,
                   g_phases = ps,
                   g_individual_spike_trains = individual_spike_trains self\<rparr>))))))"

text \<open>
  The loop over \<^verbatim>\<open>enumerate(unique_source_configurations)\<close>: the \<open>i\<close>-th group writes \<open>i\<close> at
  its positions of \<^verbatim>\<open>idx_parrot_to_generator\<close> and sets the status of the \<open>i\<close>-th generator.
  \<^verbatim>\<open>sys.float_info.max\<close> is the largest double.
\<close>

definition float_info_max :: real where
  "float_info_max = (2 ^ 53 - 1) * 2 ^ 971"

definition assign_idx :: "nat list \<Rightarrow> nat list \<Rightarrow> nat \<Rightarrow> error + nat list" where
  "assign_idx a idx v =
     (if list_all (\<lambda>k. k < length a) idx then Inr (fold (\<lambda>k b. b[k := v]) idx a)
      else Inl IndexError)"

fun set_generators ::
  "nat list \<Rightarrow> (nat \<times> nat list \<times> real \<times> real \<times> real \<times> real) list \<Rightarrow> nat list \<Rightarrow> nest
     \<Rightarrow> (error + nat list) \<times> nest" where
  "set_generators gid_generators [] idx_parrot_to_generator st = (Inr idx_parrot_to_generator, st)"
| "set_generators gid_generators ((i, idx, (rate, amplitude, frequency, phase)) # rest)
       idx_parrot_to_generator st =
     (case assign_idx idx_parrot_to_generator idx i of
        Inl e \<Rightarrow> (Inl e, st)
      | Inr idx_parrot_to_generator' \<Rightarrow>
     (case take_idx gid_generators [i] of
        Inl e \<Rightarrow> (Inl e, st)
      | Inr gid \<Rightarrow>
          set_generators gid_generators rest idx_parrot_to_generator'
            (nest_SetStatus gid
               [[(''rate'', rate), (''amplitude'', amplitude), (''frequency'', frequency),
                 (''phase'', phase), (''start'', 0), (''stop'', float_info_max)]] st)))"

text \<open>
  The rest of \<^verbatim>\<open>create_nest\<close>: one generator per distinct parameter tuple, the extra layer
  when \<^verbatim>\<open>individual_spike_trains\<close> is false, one parrot per source, and the connections.
\<close>

definition sinus_build ::
  "(real \<Rightarrow> real) \<Rightarrow> samplers \<Rightarrow> gathered \<Rightarrow> nest \<Rightarrow> (error + created) \<times> nest" where
  "sinus_build w2n samplers g st =
     (let num_parrots = length (g_rates g);
          unique_source_configurations =
            group_identical_parameters
              (zip (g_rates g) (zip (g_amplitudes g) (zip (g_frequencies g) (g_phases g))));
          num_generators = length unique_source_configurations
      in case nest_Create ''sinusoidal_poisson_generator'' num_generators st of
           (Inl e, st1) \<Rightarrow> (Inl e, st1)
         | (Inr gid_generators0, st1) \<Rightarrow>
        (case (if \<not> g_individual_spike_trains g
                 then (case nest_Create ''parrot_neurons'' num_generators st1 of
                         (Inl e, st2) \<Rightarrow> (Inl e, st2)
                       | (Inr gid_generators1, st2) \<Rightarrow>
                      (case nest_Connect_one_to_one gid_generators0 gid_generators1 None st2 of
                         (Inl e, st3) \<Rightarrow> (Inl e, st3)
                       | (Inr c, st3) \<Rightarrow> (Inr gid_generators1, st3)))
               else (Inr gid_generators0, st1)) of
           (Inl e, st3) \<Rightarrow> (Inl e, st3)
         | (Inr gid_generators, st3) \<Rightarrow>
        (case nest_Create ''parrot_neuron'' num_parrots st3 of
           (Inl e, st4) \<Rightarrow> (Inl e, st4)
         | (Inr gid_parrots, st4) \<Rightarrow>
        (case set_generators gid_generators
                (zip [0..<num_generators] unique_source_configurations)
                (replicate num_parrots 0) st4 of
           (Inl e, st5) \<Rightarrow> (Inl e, st5)
         | (Inr idx_parrot_to_generator, st5) \<Rightarrow>
             connect_parrots w2n samplers g gid_generators gid_parrots
               idx_parrot_to_generator st5))))"

definition create_nest ::
  "SinusPoissonSourceConfiguration \<Rightarrow> (real \<Rightarrow> real) \<Rightarrow> samplers \<Rightarrow> nest
     \<Rightarrow> (error + created) \<times> nest" where
  "create_nest self w2n samplers st =
     (case sinus_gather self samplers of
        Inl e \<Rightarrow> (Inl e, st)
      | Inr g \<Rightarrow> sinus_build w2n samplers g st)"

subsection \<open>Grouping of the samplers by configuration class\<close>

text \<open>
  \<^verbatim>\<open>itertools.groupby\<close>: a new group starts whenever the key changes from one element to the
  next.
\<close>

fun groupby_run :: "('a \<Rightarrow> 'k) \<Rightarrow> 'k \<Rightarrow> 'a list \<Rightarrow> 'a list \<Rightarrow> ('k \<times> 'a list) list" where
  "groupby_run key k cur [] = [(k, rev cur)]"
| "groupby_run key k cur (x # xs) =
     (if key x = k then groupby_run key k (x # cur) xs
      else (k, rev cur) # groupby_run key (key x) [x] xs)"

fun groupby :: "'a list \<Rightarrow> ('a \<Rightarrow> 'k) \<Rightarrow> ('k \<times> 'a list) list" where
  "groupby [] key = []"
| "groupby (x # xs) key = groupby_run key (key x) [x] xs"

text \<open>
  \<^verbatim>\<open>create_connect\<close> of the configuration object of a group's first sampler, on a simulator
  that has the attribute \<^verbatim>\<open>nest\<close> and with the default \<^verbatim>\<open>nest_optimized=True\<close>.
\<close>

fun create_connect ::
  "source_config \<Rightarrow> (real \<Rightarrow> real) \<Rightarrow> real \<Rightarrow> samplers \<Rightarrow> nest \<Rightarrow> (error + created) \<times> nest" where
  "create_connect (Poisson self) w2n duration samplers st =
     create_nest_optimized self w2n duration samplers st"
| "create_connect (SinusPoisson self) w2n duration samplers st =
     create_nest self w2n samplers st"

text \<open>
  \<^verbatim>\<open>sources_create_connect\<close>: the groups are created one after the other; an exception in one
  group leaves the function with the simulator as the earlier groups have left it.
\<close>

fun create_groups ::
  "(real \<Rightarrow> real) \<Rightarrow> real \<Rightarrow> (config_class \<times> sampler list) list \<Rightarrow> nest
     \<Rightarrow> (error + created list) \<times> nest" where
  "create_groups w2n duration [] st = (Inr [], st)"
| "create_groups w2n duration ((k, l_samplers) # groups) st =
     (case l_samplers of
        [] \<Rightarrow> (Inl IndexError, st)
      | s # _ \<Rightarrow>
     (case create_connect (source_config s) w2n duration (SamplerList l_samplers) st of
        (Inl e, st1) \<Rightarrow> (Inl e, st1)
      | (Inr r, st1) \<Rightarrow>
     (case create_groups w2n duration groups st1 of
        (Inl e, st2) \<Rightarrow> (Inl e, st2)
      | (Inr results, st2) \<Rightarrow> (Inr (r # results), st2))))"

definition sources_create_connect ::
  "(real \<Rightarrow> real) \<Rightarrow> real \<Rightarrow> sampler list \<Rightarrow> nest \<Rightarrow> (error + created list) \<times> nest" where
  "sources_create_connect w2n duration samplers st =
     create_groups w2n duration (groupby samplers (\<lambda>s. class_of (source_config s))) st"

subsection \<open>Noise network and Poisson pool\<close>

text \<open>
  \<^verbatim>\<open>num_exc\<close> and \<^verbatim>\<open>num_inh\<close> of \<^verbatim>\<open>NoiseNetworkSourceConfiguration\<close> and
  \<^verbatim>\<open>PoissonPoolSourceConfiguration\<close>, the two slices \<^verbatim>\<open>source[:cfg.num_exc]\<close> and
  \<^verbatim>\<open>source[-cfg.num_inh:]\<close> taken in \<^verbatim>\<open>create_connect\<close>, and the number of inhibitory partners
  of a sampler.
\<close>

definition num_exc :: "int \<Rightarrow> real \<Rightarrow> int" where
  "num_exc N gamma = np_around (of_int N * gamma)"

definition num_inh :: "int \<Rightarrow> real \<Rightarrow> int" where
  "num_inh N gamma = N - num_exc N gamma"



definition indegree_external_inh :: "int \<Rightarrow> real \<Rightarrow> real \<Rightarrow> int" where
  "indegree_external_inh N gamma epsilon_external =
     np_around (of_int (num_inh N gamma) * epsilon_external)"


text \<open>
  A kernel that knows the generator models and \<^verbatim>\<open>parrot_neuron\<close> and in which three
  sampler neurons, the nodes 1 to 3, have been created; for the worked examples.
\<close>

definition nest0 :: nest where
  "nest0 = \<lparr>Models = [''poisson_generator'', ''sinusoidal_poisson_generator'', ''parrot_neuron''],
            num_nodes = 3, calls = []\<rparr>"

text \<open>Three samplers for the worked examples, one per sampler neuron of \<open>nest0\<close>.\<close>

definition sampler_poisson :: sampler where
  "sampler_poisson =
     \<lparr>source_config = Poisson \<lparr>poisson_rates = [2000], poisson_weights = [1 / 1000]\<rparr>, cell = 1\<rparr>"

definition sinus_config :: "bool \<Rightarrow> SinusPoissonSourceConfiguration" where
  "sinus_config individual =
     \<lparr>sinus_weights = [1 / 1000], sinus_rates = [2000], sinus_amplitudes = [1000],
      sinus_frequencies = [5], sinus_phases = [0], individual_spike_trains = individual\<rparr>"

definition sampler_sinus :: "bool \<Rightarrow> nat \<Rightarrow> sampler" where
  "sampler_sinus individual c = \<lparr>source_config = SinusPoisson (sinus_config individual), cell = c\<rparr>"


text \<open>
  The same kernel with an additional model registered under the name \<^verbatim>\<open>parrot_neurons\<close>.
\<close>

definition nest_plural :: nest where
  "nest_plural = nest0\<lparr>Models := ''parrot_neurons'' # Models nest0\<rparr>"

text \<open>Three sinusoidal samplers with the same parameters, on the three sampler neurons.\<close>

definition three_samplers :: "bool \<Rightarrow> sampler list" where
  "three_samplers individual =
     [sampler_sinus individual 1, sampler_sinus individual 2, sampler_sinus individual 3]"

definition three_gathered :: "bool \<Rightarrow> gathered" where
  "three_gathered individual =
     \<lparr>num_sources_per_sampler = [1, 1, 1], g_rates = [2000, 2000, 2000],
      g_weights = [1 / 1000, 1 / 1000, 1 / 1000], g_amplitudes = [1000, 1000, 1000],
      g_frequencies = [5, 5, 5], g_phases = [0, 0, 0],
      g_individual_spike_trains = individual\<rparr>"

section \<open>Properties\<close>

subsection \<open>The offset index\<close>

lemma length_cumsum_from: "length (cumsum_from acc ns) = length ns"
  by (induction ns arbitrary: acc) auto

lemma nth_cumsum_from:
  "j < length ns \<Longrightarrow> cumsum_from acc ns ! j = acc + sum_list (take (Suc j) ns)"
proof (induction ns arbitrary: acc j)
  case Nil
  then show ?case by simp
next
  case (Cons n ns)
  then show ?case by (cases j) auto
qed

lemma length_cumsum: "length (cumsum ns) = length ns"
  by (simp add: cumsum_def length_cumsum_from)

lemma nth_cumsum: "j < length ns \<Longrightarrow> cumsum ns ! j = sum_list (take (Suc j) ns)"
  by (simp add: cumsum_def nth_cumsum_from)

lemma filter_upt_first:
  "filter P [0..<n] = j # rest \<Longrightarrow> j < n \<and> P j \<and> (\<forall>k<j. \<not> P k)"
proof (induction n arbitrary: j rest)
  case 0
  then show ?case by simp
next
  case (Suc n)
  show ?case
  proof (cases "filter P [0..<n]")
    case Nil
    with Suc.prems have "P n" "j = n" by (auto split: if_splits)
    moreover from Nil have "\<forall>k<n. \<not> P k" by (auto simp: filter_empty_conv)
    ultimately show ?thesis by simp
  next
    case (Cons a as)
    with Suc.prems have "j = a" by (auto split: if_splits)
    with Suc.IH[OF Cons] show ?thesis by auto
  qed
qed

lemma sum_list_take_mono:
  fixes ns :: "nat list"
  shows "a \<le> b \<Longrightarrow> sum_list (take a ns) \<le> sum_list (take b ns)"
proof -
  assume "a \<le> b"
  then obtain d where "b = a + d" using le_Suc_ex by blast
  then show ?thesis by (simp add: take_add)
qed

lemma idx_parrot_to_sampler_first:
  assumes "idx_parrot_to_sampler (cumsum ns) i = Inr j"
  shows "j < length ns \<and> i < sum_list (take (Suc j) ns) \<and> sum_list (take j ns) \<le> i"
proof -
  let ?P = "\<lambda>j. map (\<lambda>off. i < off) (cumsum ns) ! j"
  from assms obtain rest where f: "filter ?P [0..<length ns] = j # rest"
    by (auto simp: idx_parrot_to_sampler_def np_where_def length_cumsum split: list.splits)
  from filter_upt_first[OF f] have j: "j < length ns" and pj: "?P j" and before: "\<forall>k<j. \<not> ?P k"
    by auto
  from j pj have up: "i < sum_list (take (Suc j) ns)"
    by (simp add: length_cumsum nth_cumsum)
  have lo: "sum_list (take j ns) \<le> i"
  proof (cases j)
    case 0
    then show ?thesis by simp
  next
    case (Suc k)
    with before j have "\<not> ?P k" "k < length ns" by auto
    then have "\<not> i < sum_list (take (Suc k) ns)"
      by (simp add: length_cumsum nth_cumsum)
    with Suc show ?thesis by simp
  qed
  from j up lo show ?thesis by simp
qed

lemma idx_parrot_to_sampler_total:
  assumes "i < sum_list ns"
  shows "\<exists>j. idx_parrot_to_sampler (cumsum ns) i = Inr j"
proof -
  let ?P = "\<lambda>j. map (\<lambda>off. i < off) (cumsum ns) ! j"
  from assms have ne: "ns \<noteq> []" by auto
  then have l: "length ns - 1 < length ns" by simp
  have "?P (length ns - 1)"
    using assms l ne by (simp add: length_cumsum nth_cumsum)
  with l have "filter ?P [0..<length ns] \<noteq> []"
    by (auto simp: filter_empty_conv)
  then show ?thesis
    by (auto simp: idx_parrot_to_sampler_def np_where_def length_cumsum split: list.splits)
qed

text \<open>
  C2.  For per-sampler source counts \<open>ns\<close> and a flat slot \<open>i\<close> below their total, the lookup
  through the cumulative offsets returns the one sampler index \<open>j\<close> with
  \<open>sum (take j ns) \<le> i < sum (take (j + 1) ns)\<close>; counts \<open>[2, 1, 3]\<close> give offsets
  \<open>[2, 3, 6]\<close>, and slot \<open>4\<close> resolves to sampler \<open>2\<close>.
\<close>

theorem offset_index_lookup:
  "i < sum_list ns \<Longrightarrow>
     (\<exists>j. idx_parrot_to_sampler (cumsum ns) i = Inr j \<and> j < length ns \<and>
          sum_list (take j ns) \<le> i \<and> i < sum_list (take (Suc j) ns) \<and>
          (\<forall>j'. sum_list (take j' ns) \<le> i \<and> i < sum_list (take (Suc j') ns) \<longrightarrow> j' = j))
   \<and> cumsum [2, 1, 3] = [2, 3, 6]
   \<and> idx_parrot_to_sampler (cumsum [2, 1, 3]) 4 = Inr 2"
proof (intro conjI)
  assume lt: "i < sum_list ns"
  from idx_parrot_to_sampler_total[OF lt] obtain j where
    r: "idx_parrot_to_sampler (cumsum ns) i = Inr j" by blast
  from idx_parrot_to_sampler_first[OF r] have
    j: "j < length ns" and up: "i < sum_list (take (Suc j) ns)" and lo: "sum_list (take j ns) \<le> i"
    by auto
  have uniq: "j' = j" if h: "sum_list (take j' ns) \<le> i \<and> i < sum_list (take (Suc j') ns)" for j'
  proof (rule ccontr)
    assume "j' \<noteq> j"
    then consider "j' < j" | "j < j'" by linarith
    then show False
    proof cases
      case 1
      then have "sum_list (take (Suc j') ns) \<le> sum_list (take j ns)"
        by (intro sum_list_take_mono) simp
      with h lo show False by simp
    next
      case 2
      then have "sum_list (take (Suc j) ns) \<le> sum_list (take j' ns)"
        by (intro sum_list_take_mono) simp
      with h up show False by simp
    qed
  qed
  from r j lo up uniq
  show "\<exists>j. idx_parrot_to_sampler (cumsum ns) i = Inr j \<and> j < length ns \<and>
          sum_list (take j ns) \<le> i \<and> i < sum_list (take (Suc j) ns) \<and>
          (\<forall>j'. sum_list (take j' ns) \<le> i \<and> i < sum_list (take (Suc j') ns) \<longrightarrow> j' = j)"
    by blast
next
  show "cumsum [2, 1, 3] = [2, 3, 6]" by (simp add: cumsum_def)
next
  show "idx_parrot_to_sampler (cumsum [2, 1, 3]) 4 = Inr 2"
    by (simp add: cumsum_def idx_parrot_to_sampler_def np_where_def upt_rec)
qed

theorem offset_index_lookup_witness:
  "(4::nat) < sum_list [2, 1, 3] \<and>
   (\<exists>j. idx_parrot_to_sampler (cumsum [2, 1, 3]) 4 = Inr j \<and> j < length [2, 1, 3::nat] \<and>
        sum_list (take j [2, 1, 3::nat]) \<le> 4 \<and> 4 < sum_list (take (Suc j) [2, 1, 3::nat]))"
proof -
  have h: "(4::nat) < sum_list [2, 1, 3]" by simp
  from offset_index_lookup [OF h] have
    "\<exists>j. idx_parrot_to_sampler (cumsum [2, 1, 3]) 4 = Inr j \<and> j < length [2, 1, 3::nat] \<and>
        sum_list (take j [2, 1, 3::nat]) \<le> 4 \<and> 4 < sum_list (take (Suc j) [2, 1, 3::nat]) \<and>
        (\<forall>j'. sum_list (take j' [2, 1, 3::nat]) \<le> 4 \<and> 4 < sum_list (take (Suc j') [2, 1, 3::nat])
           \<longrightarrow> j' = j)"
    by (rule conjunct1)
  then obtain j where "idx_parrot_to_sampler (cumsum [2, 1, 3]) 4 = Inr j \<and> j < length [2, 1, 3::nat] \<and>
        sum_list (take j [2, 1, 3::nat]) \<le> 4 \<and> 4 < sum_list (take (Suc j) [2, 1, 3::nat])"
    by blast
  then have "\<exists>j. idx_parrot_to_sampler (cumsum [2, 1, 3]) 4 = Inr j \<and> j < length [2, 1, 3::nat] \<and>
        sum_list (take j [2, 1, 3::nat]) \<le> 4 \<and> 4 < sum_list (take (Suc j) [2, 1, 3::nat])"
    by (rule exI)
  with h show ?thesis by (rule conjI)
qed

subsection \<open>Grouping by configuration class\<close>

lemma groupby_run_char:
  "groupby_run key k cur xs =
     (k, rev cur @ takeWhile (\<lambda>y. key y = k) xs) # groupby (dropWhile (\<lambda>y. key y = k) xs) key"
proof (induction xs arbitrary: cur)
  case Nil
  then show ?case by simp
next
  case (Cons x xs)
  then show ?case by simp
qed

lemma groupby_Cons:
  "groupby (x # xs) key =
     (key x, x # takeWhile (\<lambda>y. key y = key x) xs) # groupby (dropWhile (\<lambda>y. key y = key x) xs) key"
  by (simp add: groupby_run_char)

declare groupby.simps(2) [simp del]

lemma groupby_concat: "concat (map snd (groupby xs key)) = xs"
proof (induction "length xs" arbitrary: xs rule: less_induct)
  case less
  show ?case
  proof (cases xs)
    case Nil
    then show ?thesis by simp
  next
    case (Cons x ys)
    have "length (dropWhile (\<lambda>y. key y = key x) ys) < length xs"
      using Cons length_dropWhile_le[of "\<lambda>y. key y = key x" ys] by simp
    from less[OF this] Cons show ?thesis
      by (simp add: groupby_Cons)
  qed
qed

lemma groupby_groups:
  "(k, g) \<in> set (groupby xs key) \<Longrightarrow> g \<noteq> [] \<and> (\<forall>x\<in>set g. key x = k)"
proof (induction "length xs" arbitrary: xs rule: less_induct)
  case less
  show ?case
  proof (cases xs)
    case Nil
    with less.prems show ?thesis by simp
  next
    case (Cons x ys)
    have l: "length (dropWhile (\<lambda>y. key y = key x) ys) < length xs"
      using Cons length_dropWhile_le[of "\<lambda>y. key y = key x" ys] by simp
    from less.prems Cons consider
      "k = key x \<and> g = x # takeWhile (\<lambda>y. key y = key x) ys"
      | "(k, g) \<in> set (groupby (dropWhile (\<lambda>y. key y = key x) ys) key)"
      by (auto simp: groupby_Cons)
    then show ?thesis
    proof cases
      case 1
      then show ?thesis by (auto dest: set_takeWhileD)
    next
      case 2
      from less.hyps[OF l 2] show ?thesis .
    qed
  qed
qed

lemma groupby_hd_key:
  "groupby xs key = (k, g) # rest \<Longrightarrow> xs \<noteq> [] \<and> k = key (hd xs)"
  by (cases xs) (auto simp: groupby_Cons)

lemma groupby_adjacent:
  "Suc i < length (groupby xs key) \<Longrightarrow>
     fst (groupby xs key ! i) \<noteq> fst (groupby xs key ! Suc i)"
proof (induction "length xs" arbitrary: xs i rule: less_induct)
  case less
  show ?case
  proof (cases xs)
    case Nil
    with less.prems show ?thesis by simp
  next
    case (Cons x ys)
    let ?rest = "dropWhile (\<lambda>y. key y = key x) ys"
    have l: "length ?rest < length xs"
      using Cons length_dropWhile_le[of "\<lambda>y. key y = key x" ys] by simp
    have eq: "groupby xs key = (key x, x # takeWhile (\<lambda>y. key y = key x) ys) # groupby ?rest key"
      using Cons by (simp add: groupby_Cons)
    show ?thesis
    proof (cases i)
      case 0
      from less.prems eq 0 obtain k g rest' where r: "groupby ?rest key = (k, g) # rest'"
        by (cases "groupby ?rest key") auto
      from groupby_hd_key[OF r] have ne: "?rest \<noteq> []" and k: "k = key (hd ?rest)" by auto
      from ne have "\<not> key (hd ?rest) = key x" by (rule hd_dropWhile)
      with k eq r 0 show ?thesis by auto
    next
      case (Suc i')
      with less.prems eq have "Suc i' < length (groupby ?rest key)" by simp
      from less.hyps[OF l this] eq Suc show ?thesis by simp
    qed
  qed
qed

text \<open>
  C7.  \<^verbatim>\<open>sources_create_connect\<close> partitions its samplers with \<^verbatim>\<open>itertools.groupby\<close> on the
  class of the source configuration.  The groups, read in order, are the input in submission
  order; every group is a non-empty run of one key; neighbouring groups differ in their key,
  so the grouping is by consecutive runs only; and two samplers of one class with a sampler
  of another class between them end up in two distinct groups.
\<close>

theorem groupby_consecutive_runs:
  "concat (map snd (groupby samplers key)) = samplers
   \<and> (\<forall>(k, g) \<in> set (groupby samplers key). g \<noteq> [] \<and> (\<forall>s\<in>set g. key s = k))
   \<and> (\<forall>i. Suc i < length (groupby samplers key) \<longrightarrow>
          fst (groupby samplers key ! i) \<noteq> fst (groupby samplers key ! Suc i))
   \<and> (key s2 \<noteq> key s1 \<and> key s3 = key s1 \<longrightarrow>
          groupby [s1, s2, s3] key = [(key s1, [s1]), (key s2, [s2]), (key s3, [s3])])"
proof (intro conjI)
  show "concat (map snd (groupby samplers key)) = samplers" by (rule groupby_concat)
next
  show "\<forall>(k, g) \<in> set (groupby samplers key). g \<noteq> [] \<and> (\<forall>s\<in>set g. key s = k)"
    using groupby_groups[of _ _ samplers key] by blast
next
  show "\<forall>i. Suc i < length (groupby samplers key) \<longrightarrow>
          fst (groupby samplers key ! i) \<noteq> fst (groupby samplers key ! Suc i)"
    using groupby_adjacent by blast
next
  show "key s2 \<noteq> key s1 \<and> key s3 = key s1 \<longrightarrow>
          groupby [s1, s2, s3] key = [(key s1, [s1]), (key s2, [s2]), (key s3, [s3])]"
    by (auto simp: groupby_Cons)
qed

theorem groupby_consecutive_runs_witness:
  "groupby [PoissonClass, SinusPoissonClass, PoissonClass] (\<lambda>c. c) =
     [(PoissonClass, [PoissonClass]), (SinusPoissonClass, [SinusPoissonClass]),
      (PoissonClass, [PoissonClass])]
   \<and> concat (map snd (groupby [PoissonClass, SinusPoissonClass, PoissonClass] (\<lambda>c. c))) =
       [PoissonClass, SinusPoissonClass, PoissonClass]"
  using groupby_consecutive_runs
    [of "[PoissonClass, SinusPoissonClass, PoissonClass]" "\<lambda>c. c"
        SinusPoissonClass PoissonClass PoissonClass]
  by (simp add: groupby_Cons)

subsection \<open>Parameter verification\<close>









subsection \<open>Excitatory and inhibitory slices of a noise population\<close>



lemma np_around_zero: "np_around 0 = 0"
  by (simp add: np_around_def)



lemma indegree_external_inh_zero:
  "num_inh N gamma = 0 \<Longrightarrow> indegree_external_inh N gamma epsilon_external = 0"
  by (simp add: indegree_external_inh_def np_around_zero)



subsection \<open>What the backend steps can raise\<close>

lemma nest_Create_error:
  "nest_Create model n st = (Inl e, st') \<Longrightarrow> e = UnknownModelName model \<and> st' = st"
  by (auto simp: nest_Create_def split: if_splits)


lemma nest_Connect_error:
  "nest_Connect_one_to_one pre post w st = (Inl e, st') \<Longrightarrow> e = DimensionMismatch \<and> st' = st"
  by (auto simp: nest_Connect_one_to_one_def split: if_splits)

lemma nest_Connect_ok:
  "nest_Connect_one_to_one pre post w st = (Inr c, st') \<Longrightarrow>
     c = zip pre post \<and> length pre = length post \<and> Models st' = Models st
     \<and> num_nodes st' = num_nodes st"
  by (auto simp: nest_Connect_one_to_one_def split: if_splits)

lemma take_idx_error: "take_idx a idx = Inl e \<Longrightarrow> e = IndexError"
  by (auto simp: take_idx_def split: if_splits)

lemma take_idx_ok: "take_idx a idx = Inr r \<Longrightarrow> length r = length idx"
  by (auto simp: take_idx_def split: if_splits)

lemma idx_parrot_to_sampler_error: "idx_parrot_to_sampler offs i = Inl e \<Longrightarrow> e = IndexError"
  by (auto simp: idx_parrot_to_sampler_def split: list.splits)

lemma idx_samplers_of_error: "idx_samplers_of offs is = Inl e \<Longrightarrow> e = IndexError"
  by (induction "is" arbitrary: e)
     (auto split: sum.splits dest: idx_parrot_to_sampler_error)

lemma idx_samplers_of_ok: "idx_samplers_of offs is = Inr js \<Longrightarrow> length js = length is"
  by (induction "is" arbitrary: js) (auto split: sum.splits)

lemma assign_idx_error: "assign_idx a idx v = Inl e \<Longrightarrow> e = IndexError"
  by (auto simp: assign_idx_def split: if_splits)

lemma set_generators_error:
  "set_generators gids groups i2g st = (Inl e, st') \<Longrightarrow> e = IndexError"
proof (induction gids groups i2g st rule: set_generators.induct)
  case (1 gid_generators idx_parrot_to_generator st)
  then show ?case by simp
next
  case (2 gid_generators i idx rate amplitude frequency phase rest idx_parrot_to_generator st)
  then show ?case
    by (auto split: sum.splits dest: assign_idx_error take_idx_error)
qed

lemma set_generators_nodes:
  "set_generators gids groups i2g st = (r, st') \<Longrightarrow>
     num_nodes st' = num_nodes st \<and> Models st' = Models st"
proof (induction gids groups i2g st rule: set_generators.induct)
  case (1 gid_generators idx_parrot_to_generator st)
  then show ?case by simp
next
  case (2 gid_generators i idx rate amplitude frequency phase rest idx_parrot_to_generator st)
  then show ?case
    by (auto simp: nest_SetStatus_def split: sum.splits)
qed

lemma connect_parrots_error:
  "connect_parrots w2n samplers g gens pars i2g st = (Inl e, st') \<Longrightarrow>
     e = IndexError \<or> e = DimensionMismatch"
  by (auto simp: connect_parrots_def Let_def split: sum.splits prod.splits
      dest: take_idx_error nest_Connect_error idx_samplers_of_error)

lemma poisson_build_error:
  "poisson_build w2n duration samplers g st = (Inl e, st') \<Longrightarrow>
     e = IndexError \<or> e = DimensionMismatch \<or> (\<exists>m. e = UnknownModelName m)"
  by (auto simp: poisson_build_def Let_def split: sum.splits prod.splits if_splits
      dest: nest_Create_error connect_parrots_error)

lemma sinus_build_error:
  "sinus_build w2n samplers g st = (Inl e, st') \<Longrightarrow>
     e = IndexError \<or> e = DimensionMismatch \<or> (\<exists>m. e = UnknownModelName m)"
  by (auto simp: sinus_build_def Let_def split: sum.splits prod.splits if_splits
      dest: nest_Create_error nest_Connect_error connect_parrots_error set_generators_error)

subsection \<open>The guards on the weights of a population\<close>












subsection \<open>Validation before creation\<close>

lemma create_nest_optimized_validation:
  "create_nest_optimized p w2n duration samplers st = (Inl e, st') \<Longrightarrow>
     e = ValueError m \<or> e = AttributeError m \<Longrightarrow> st' = st"
  by (auto simp: create_nest_optimized_def split: sum.splits dest: poisson_build_error)

lemma create_nest_validation:
  "create_nest s w2n samplers st = (Inl e, st') \<Longrightarrow>
     e = ValueError m \<or> e = AttributeError m \<Longrightarrow> st' = st"
  by (auto simp: create_nest_def split: sum.splits dest: sinus_build_error)

text \<open>
  C8 (as the code has it).  Inside \<^verbatim>\<open>create_nest_optimized\<close> and inside the sinusoidal
  \<^verbatim>\<open>create_nest\<close> every raise of the gathering part (the \<^verbatim>\<open>ValueError\<close>s of the guards, of the
  \<^verbatim>\<open>individual_spike_trains\<close> check and of \<^verbatim>\<open>np.hstack\<close>, an \<^verbatim>\<open>AttributeError\<close>) comes before
  the first \<^verbatim>\<open>nest.Create\<close>: a call that ends in such an error leaves the kernel exactly as it
  found it.  What earlier groups of one \<^verbatim>\<open>sources_create_connect\<close> call have created stays.
\<close>

theorem validation_before_creation:
  "(create_nest_optimized p w2n duration samplers st = (Inl e, st')
      \<and> (e = ValueError m \<or> e = AttributeError m) \<longrightarrow> st' = st)
   \<and> (create_nest s w2n samplers st = (Inl e, st')
      \<and> (e = ValueError m \<or> e = AttributeError m) \<longrightarrow> st' = st)
   \<and> (poisson_gather p samplers = Inl e \<longrightarrow>
        create_nest_optimized p w2n duration samplers st = (Inl e, st))
   \<and> (sinus_gather s samplers = Inl e \<longrightarrow> create_nest s w2n samplers st = (Inl e, st))"
proof (intro conjI impI)
  assume "create_nest_optimized p w2n duration samplers st = (Inl e, st')
      \<and> (e = ValueError m \<or> e = AttributeError m)"
  then show "st' = st" using create_nest_optimized_validation by blast
next
  assume "create_nest s w2n samplers st = (Inl e, st') \<and> (e = ValueError m \<or> e = AttributeError m)"
  then show "st' = st" using create_nest_validation by blast
next
  assume "poisson_gather p samplers = Inl e"
  then show "create_nest_optimized p w2n duration samplers st = (Inl e, st)"
    by (simp add: create_nest_optimized_def)
next
  assume "sinus_gather s samplers = Inl e"
  then show "create_nest s w2n samplers st = (Inl e, st)"
    by (simp add: create_nest_def)
qed

lemma sinus_gather_mixed_setting:
  "sinus_gather s (SamplerList [sampler_sinus True 2, sampler_sinus False 3]) =
     Inl (ValueError (''All SinusPoissonSourceConfigurations must have the '' @
                      ''same 'individual_spike_trains' setting!''))"
  by (simp add: sinus_gather_def hstack_attr_def hstack_def bind_err_def sampler_sinus_def
      sinus_config_def)

theorem validation_before_creation_witness:
  "create_nest (sinus_config True) id (SamplerList [sampler_sinus True 2, sampler_sinus False 3]) nest0 =
     (Inl (ValueError (''All SinusPoissonSourceConfigurations must have the '' @
                       ''same 'individual_spike_trains' setting!'')), nest0)
   \<and> create_nest_optimized \<lparr>poisson_rates = [10, 10], poisson_weights = [1, 2]\<rparr> id 1000
        (BasePopulation [1]) nest0 =
     (Inl (ValueError ''Noise weights are all excitatory. Aborting.''), nest0)"
proof -
  have g: "poisson_gather \<lparr>poisson_rates = [10, 10], poisson_weights = [1, 2]\<rparr> (BasePopulation [1])
             = Inl (ValueError ''Noise weights are all excitatory. Aborting.'')"
    by (simp add: poisson_gather_def hstack_def bind_err_def np_all_def)
  from validation_before_creation
    [where p = "\<lparr>poisson_rates = [10, 10], poisson_weights = [1, 2]\<rparr>" and w2n = id
       and duration = 1000 and samplers = "BasePopulation [1]" and st = nest0
       and e = "ValueError ''Noise weights are all excitatory. Aborting.''"] g
  have a: "create_nest_optimized \<lparr>poisson_rates = [10, 10], poisson_weights = [1, 2]\<rparr> id 1000
        (BasePopulation [1]) nest0 =
     (Inl (ValueError ''Noise weights are all excitatory. Aborting.''), nest0)"
    by blast
  from validation_before_creation
    [where s = "sinus_config True" and w2n = id
       and samplers = "SamplerList [sampler_sinus True 2, sampler_sinus False 3]" and st = nest0
       and e = "ValueError (''All SinusPoissonSourceConfigurations must have the '' @
                       ''same 'individual_spike_trains' setting!'')"]
    sinus_gather_mixed_setting[of "sinus_config True"]
  have b: "create_nest (sinus_config True) id (SamplerList [sampler_sinus True 2, sampler_sinus False 3]) nest0 =
     (Inl (ValueError (''All SinusPoissonSourceConfigurations must have the '' @
                       ''same 'individual_spike_trains' setting!'')), nest0)"
    by blast
  from a b show ?thesis by blast
qed

lemma np_unique_single: "np_unique [x] = ([x], [0])"
  by (simp add: np_unique_def)

lemma group_one_created:
  "create_nest_optimized p id 1000 (SamplerList [sampler_poisson]) nest0 =
     (Inr \<lparr>generators = [4], parrots = [5], generator_to_parrot = [(4, 5)],
           parrot_to_sampler = [(5, 1)], connection_weights = [1 / 1000]\<rparr>,
      \<lparr>Models = [''poisson_generator'', ''sinusoidal_poisson_generator'', ''parrot_neuron''],
       num_nodes = 5,
       calls = [Create ''poisson_generator'' 1, Create ''parrot_neuron'' 1,
                SetStatus [4] [[(''rate'', 2000), (''start'', 0), (''stop'', 1000)]],
                Connect [4] [5] ''one_to_one'' None,
                Connect [5] [1] ''one_to_one'' (Some [1 / 1000])]\<rparr>)"
  by (simp add: create_nest_optimized_def poisson_gather_def hstack_def bind_err_def
     poisson_build_def np_unique_single poisson_source_model_def nest0_def nest_Create_def
     nest_SetStatus_def connect_parrots_def take_idx_def nest_Connect_one_to_one_def cumsum_def
     idx_parrot_to_sampler_def np_where_def upt_rec sampler_poisson_def)

text \<open>
  A Poisson sampler followed by two sinusoidal samplers with different
  \<^verbatim>\<open>individual_spike_trains\<close> settings: the second group fails its check after the first group
  has created and connected a generator and a parrot.
\<close>

theorem validation_before_creation_counterexample:
  "sources_create_connect id 1000
     [sampler_poisson, sampler_sinus True 2, sampler_sinus False 3] nest0 =
     (Inl (ValueError (''All SinusPoissonSourceConfigurations must have the '' @
                       ''same 'individual_spike_trains' setting!'')),
      \<lparr>Models = [''poisson_generator'', ''sinusoidal_poisson_generator'', ''parrot_neuron''],
       num_nodes = 5,
       calls = [Create ''poisson_generator'' 1, Create ''parrot_neuron'' 1,
                SetStatus [4] [[(''rate'', 2000), (''start'', 0), (''stop'', 1000)]],
                Connect [4] [5] ''one_to_one'' None,
                Connect [5] [1] ''one_to_one'' (Some [1 / 1000])]\<rparr>)"
proof -
  have g: "groupby [sampler_poisson, sampler_sinus True 2, sampler_sinus False 3]
             (\<lambda>s. class_of (source_config s)) =
           [(PoissonClass, [sampler_poisson]),
            (SinusPoissonClass, [sampler_sinus True 2, sampler_sinus False 3])]"
    by (simp add: groupby_Cons sampler_poisson_def sampler_sinus_def)
  have c1: "source_config sampler_poisson = Poisson \<lparr>poisson_rates = [2000], poisson_weights = [1 / 1000]\<rparr>"
    by (simp add: sampler_poisson_def)
  obtain sc where c2: "source_config (sampler_sinus True 2) = SinusPoisson sc"
    by (simp add: sampler_sinus_def)
  show ?thesis
    unfolding sources_create_connect_def g
    by (simp add: c1 c2 group_one_created create_nest_def sinus_gather_mixed_setting)
qed

subsection \<open>One parrot and one connection per source\<close>


lemma connect_parrots_weights:
  assumes "connect_parrots w2n samplers g gid_generators gid_parrots i2g st = (Inr r, st')"
  shows "connection_weights r = map w2n (g_weights g)"
  using assms
  by (auto simp: connect_parrots_def Let_def nest_Connect_one_to_one_def
      split: sum.splits prod.splits if_splits)




lemma index_of_less: "x \<in> set u \<Longrightarrow> index_of x u < length u"
  by (induction u) auto

lemma nth_index_of: "x \<in> set u \<Longrightarrow> u ! index_of x u = x"
  by (induction u) auto

lemma np_unique_props:
  assumes "np_unique a = (u, ix)"
  shows "length ix = length a" and "\<forall>i\<in>set ix. i < length u"
    and "\<forall>i<length a. u ! (ix ! i) = a ! i" and "sorted u" and "distinct u" and "set u = set a"
proof -
  from assms have u: "u = sort (remdups a)" and ix: "ix = map (\<lambda>x. index_of x u) a"
    by (auto simp: np_unique_def Let_def)
  from u show su: "set u = set a" by simp
  from ix show "length ix = length a" by simp
  from ix su show "\<forall>i\<in>set ix. i < length u" by (auto intro: index_of_less)
  from ix su show "\<forall>i<length a. u ! (ix ! i) = a ! i" by (auto intro: nth_index_of)
  from u show "sorted u" by simp
  from u show "distinct u" by simp
qed














subsection \<open>Receptor type from the sign of a weight\<close>

lemma one_to_one_conn_list_excitatory:
  "one_to_one_conn_list cb j ws 1 =
     map (\<lambda>i. (i, j, if cb then \<bar>ws ! i\<bar> else ws ! i)) (filter (\<lambda>i. 0 < ws ! i) [0..<length ws])"
proof -
  have "filter (\<lambda>i. map (\<lambda>e. e = 1) (is_exc_array ws) ! i) [0..<length ws]
      = filter (\<lambda>i. 0 < ws ! i) [0..<length ws]"
    by (rule filter_cong) (auto simp: is_exc_array_def)
  then show ?thesis
    by (simp add: one_to_one_conn_list_def np_where_def is_exc_array_def)
qed

lemma one_to_one_conn_list_inhibitory:
  "one_to_one_conn_list cb j ws 0 =
     map (\<lambda>i. (i, j, if cb then \<bar>ws ! i\<bar> else ws ! i)) (filter (\<lambda>i. ws ! i \<le> 0) [0..<length ws])"
proof -
  have "filter (\<lambda>i. map (\<lambda>e. e = 0) (is_exc_array ws) ! i) [0..<length ws]
      = filter (\<lambda>i. ws ! i \<le> 0) [0..<length ws]"
    by (rule filter_cong) (auto simp: is_exc_array_def)
  then show ?thesis
    by (simp add: one_to_one_conn_list_def np_where_def is_exc_array_def)
qed

lemma connect_one_to_one_sampler_rule:
  "connect_one_to_one_sampler cb j ws =
     [(inhibitory, map (\<lambda>i. (i, j, if cb then \<bar>ws ! i\<bar> else ws ! i))
                     (filter (\<lambda>i. ws ! i \<le> 0) [0..<length ws])),
      (excitatory, map (\<lambda>i. (i, j, if cb then \<bar>ws ! i\<bar> else ws ! i))
                     (filter (\<lambda>i. 0 < ws ! i) [0..<length ws]))]"
proof -
  have u: "[0..<2] = [0, Suc 0]" by (simp add: upt_rec numeral_2_eq_2)
  show ?thesis
    using one_to_one_conn_list_excitatory[of cb j ws] one_to_one_conn_list_inhibitory[of cb j ws]
    by (simp add: connect_one_to_one_sampler_def u)
qed

lemma weights_exc_rule: "weights_exc ws = filter (\<lambda>w. 0 < w) ws"
  by (induction ws) (auto simp: weights_exc_def)

lemma weights_inh_rule: "weights_inh ws = filter (\<lambda>w. w \<le> 0) ws"
  by (induction ws) (auto simp: weights_inh_def)

text \<open>
  C1.  The rule \<open>weight > 0\<close> excitatory, \<open>weight \<le> 0\<close> inhibitory is the one of
  \<^verbatim>\<open>connect_one_to_one\<close> and of \<^verbatim>\<open>get_distribution_parameters\<close> (the three lemmas above).
  \<^verbatim>\<open>FixedSpikeTrainConfiguration.connect_sources_regular\<close> tests \<^verbatim>\<open>weight < 0\<close> and
  \<^verbatim>\<open>weight >= 0\<close> instead: an edge of weight exactly \<open>0\<close> goes to the excitatory projection
  there, in both of its branches, and to the inhibitory one everywhere else.
\<close>

theorem receptor_zero_weight:
  "connect_sources_regular False [(0, 0, 0)] = [(inhibitory, []), (excitatory, [(0, 0, 0)])]
   \<and> connect_sources_regular_list [False] [(0, 0, 0)] = [(inhibitory, []), (excitatory, [(0, 0, 0)])]
   \<and> connect_one_to_one (\<lambda>j. False) [[0]] = [(inhibitory, [(0, 0, 0)]), (excitatory, [])]
   \<and> weights_inh [0] = [0] \<and> weights_exc [0] = []"
  by (simp add: connect_sources_regular_def connect_sources_regular_list_def trans_def
      connect_one_to_one_def connect_one_to_one_sampler_rule weights_inh_rule weights_exc_rule)

subsection \<open>Deduplication\<close>

lemma find_spike_times_Some:
  "find_spike_times st all = Some i \<Longrightarrow> i < length all \<and> all ! i = st"
proof (induction all arbitrary: i)
  case Nil
  then show ?case by simp
next
  case (Cons a all)
  then show ?case by (auto split: if_splits)
qed

lemma get_index_props:
  assumes "get_index st all = (i, all')"
  shows "(\<exists>ext. all' = all @ ext) \<and> i < length all' \<and> all' ! i = st"
proof (cases "find_spike_times st all")
  case None
  with assms show ?thesis by (auto simp: get_index_def)
next
  case (Some k)
  with assms find_spike_times_Some[OF Some] show ?thesis by (auto simp: get_index_def)
qed

lemma get_index_all_props:
  "get_index_all sts all = (ids, all') \<Longrightarrow>
     (\<exists>ext. all' = all @ ext) \<and> length ids = length sts
     \<and> (\<forall>i<length sts. ids ! i < length all' \<and> all' ! (ids ! i) = sts ! i)"
proof (induction sts arbitrary: all ids all')
  case Nil
  then show ?case by simp
next
  case (Cons st sts)
  obtain i all1 where g: "get_index st all = (i, all1)" by (cases "get_index st all")
  obtain js all2 where r: "get_index_all sts all1 = (js, all2)" by (cases "get_index_all sts all1")
  from Cons.prems g r have ids: "ids = i # js" and a: "all' = all2" by simp_all
  from get_index_props[OF g] obtain ext1 where
    e1: "all1 = all @ ext1" and i: "i < length all1" "all1 ! i = st" by blast
  from Cons.IH[OF r] obtain ext2 where
    e2: "all2 = all1 @ ext2" and l: "length js = length sts"
    and p: "\<forall>k<length sts. js ! k < length all2 \<and> all2 ! (js ! k) = sts ! k" by blast
  have "\<forall>k<length (st # sts). ids ! k < length all' \<and> all' ! (ids ! k) = (st # sts) ! k"
  proof (intro allI impI)
    fix k assume "k < length (st # sts)"
    then show "ids ! k < length all' \<and> all' ! (ids ! k) = (st # sts) ! k"
      using ids a e2 i p by (cases k) (auto simp: nth_append)
  qed
  moreover from e1 e2 a have "\<exists>ext. all' = all @ ext" by simp
  moreover from ids l have "length ids = length (st # sts)" by simp
  ultimately show ?case by blast
qed

lemma spike_train_dedup_contract:
  "get_index_all sts [] = (ids, all_spike_times) \<Longrightarrow> i < length sts \<Longrightarrow>
     all_spike_times ! (ids ! i) = sts ! i"
  using get_index_all_props[of sts "[]" ids all_spike_times] by simp

lemma rate_dedup_contract:
  "np_unique rs = (uniq_rates, idx_parrot_to_generator) \<Longrightarrow> i < length rs \<Longrightarrow>
     uniq_rates ! (idx_parrot_to_generator ! i) = rs ! i"
  using np_unique_props(3)[of rs uniq_rates idx_parrot_to_generator] by simp

text \<open>
  C3.  The contract \<open>unique[index[i]] = specs[i]\<close> holds for the sorted-unique deduplication
  of the rates and for the first-occurrence deduplication of the spike trains (the two
  lemmas above).  \<^verbatim>\<open>_consolidate_sources\<close> states the same contract in its docstring, but on
  the sources \<open>A, A, B\<close> it returns three consolidated entries and the four indices
  \<open>[0, 0, 1, 2]\<close>: the index at position \<open>2\<close> points at the second \<open>A\<close>, not at \<open>B\<close>.
\<close>

theorem consolidate_sources_misaligned:
  "consolidate_sources [1, 1, 2] [[(0, 1000)], [(0, 1000)], [(0, 100)]] =
     ([1, 1, 2], [[(0, 1000)], [(0, 1000)], [(0, 100)]], [0, 0, 1, 2])
   \<and> fst (consolidate_sources [1, 1, 2] [[(0, 1000)], [(0, 1000)], [(0, 100)]])
        ! (snd (snd (consolidate_sources [1, 1, 2] [[(0, 1000)], [(0, 1000)], [(0, 100)]])) ! 2)
      \<noteq> [1, 1, 2::real] ! 2"
proof -
  have e: "consolidate_sources [1, 1, 2] [[(0, 1000)], [(0, 1000)], [(0, 100)]] =
     ([1, 1, 2], [[(0, 1000)], [(0, 1000)], [(0, 100)]], [0, 0, 1, 2])"
    by (simp add: consolidate_sources_def duplicate_positions_def upt_rec)
  show ?thesis unfolding e by simp
qed

subsection \<open>The shared layer of the sinusoidal sources\<close>

lemma sinus_gather_three:
  "sinus_gather s (SamplerList (three_samplers individual)) = Inr (three_gathered individual)"
  by (simp add: sinus_gather_def hstack_attr_def hstack_def bind_err_def three_samplers_def
      sampler_sinus_def sinus_config_def three_gathered_def)

lemma group_three:
  "group_identical_parameters [(2000, 1000, 5, 0), (2000, 1000, 5, 0), (2000::real, 1000::real, 5::real, 0::real)]
   = [([0, 1, 2], (2000, 1000, 5, 0))]"
  by (simp add: group_identical_parameters_def upt_rec)

text \<open>
  C5.  With \<^verbatim>\<open>individual_spike_trains = False\<close> the routine asks the kernel for the shared layer
  under the model name \<^verbatim>\<open>parrot_neurons\<close>, while every other relay of the file is a
  \<^verbatim>\<open>parrot_neuron\<close>.  On a kernel that knows \<^verbatim>\<open>parrot_neuron\<close> only, three samplers sharing one
  rate get the one hidden generator and then the call fails: no shared relay, no visible
  relay and no connection is made.
\<close>

theorem shared_layer_model_name:
  "create_nest (sinus_config False) id (SamplerList (three_samplers False)) nest0 =
     (Inl (UnknownModelName ''parrot_neurons''),
      \<lparr>Models = [''poisson_generator'', ''sinusoidal_poisson_generator'', ''parrot_neuron''],
       num_nodes = 4,
       calls = [Create ''sinusoidal_poisson_generator'' 1]\<rparr>)"
proof -
  have "create_nest (sinus_config False) id (SamplerList (three_samplers False)) nest0 =
          sinus_build id (SamplerList (three_samplers False)) (three_gathered False) nest0"
    by (simp add: create_nest_def sinus_gather_three)
  also have "\<dots> = (Inl (UnknownModelName ''parrot_neurons''),
      \<lparr>Models = [''poisson_generator'', ''sinusoidal_poisson_generator'', ''parrot_neuron''],
       num_nodes = 4,
       calls = [Create ''sinusoidal_poisson_generator'' 1]\<rparr>)"
    by (simp add: sinus_build_def Let_def three_gathered_def group_three nest0_def nest_Create_def)
  finally show ?thesis .
qed

text \<open>
  Were the name known to the kernel, the layout would be the intended one: one hidden
  generator (node 4), one shared relay (node 5) wired one-to-one to it, and three visible
  relays (nodes 6 to 8), each fed by the shared relay and wired to its own sampler.  The
  parameters of the group are then set on the shared relay, \<^verbatim>\<open>gid_generators\<close> having been
  rebound to it, and not on the hidden generator.
\<close>

lemma two_layers_on_plural_kernel:
  "create_nest (sinus_config False) id (SamplerList (three_samplers False)) nest_plural =
     (Inr \<lparr>generators = [5], parrots = [6, 7, 8],
           generator_to_parrot = [(5, 6), (5, 7), (5, 8)],
           parrot_to_sampler = [(6, 1), (7, 2), (8, 3)],
           connection_weights = [1 / 1000, 1 / 1000, 1 / 1000]\<rparr>,
      \<lparr>Models = [''parrot_neurons'', ''poisson_generator'', ''sinusoidal_poisson_generator'',
                 ''parrot_neuron''],
       num_nodes = 8,
       calls = [Create ''sinusoidal_poisson_generator'' 1,
                Create ''parrot_neurons'' 1,
                Connect [4] [5] ''one_to_one'' None,
                Create ''parrot_neuron'' 3,
                SetStatus [5] [[(''rate'', 2000), (''amplitude'', 1000), (''frequency'', 5),
                                (''phase'', 0), (''start'', 0), (''stop'', float_info_max)]],
                Connect [5, 5, 5] [6, 7, 8] ''one_to_one'' None,
                Connect [6, 7, 8] [1, 2, 3] ''one_to_one''
                  (Some [1 / 1000, 1 / 1000, 1 / 1000])]\<rparr>)"
  (is "_ = ?result")
proof -
  have "create_nest (sinus_config False) id (SamplerList (three_samplers False)) nest_plural =
          sinus_build id (SamplerList (three_samplers False)) (three_gathered False) nest_plural"
    by (simp add: create_nest_def sinus_gather_three)
  also have "\<dots> = ?result"
    by (simp add: sinus_build_def Let_def three_gathered_def group_three
      nest_plural_def nest0_def nest_Create_def nest_Connect_one_to_one_def assign_idx_def
      take_idx_def nest_SetStatus_def connect_parrots_def cumsum_def idx_parrot_to_sampler_def
      np_where_def three_samplers_def sampler_sinus_def upt_conv_Cons)
  finally show ?thesis .
qed

text \<open>
  In the default mode the same three samplers get one generator and three relays, each relay
  fed by the generator and wired to its own sampler.
\<close>

lemma individual_draws:
  "create_nest (sinus_config True) id (SamplerList (three_samplers True)) nest0 =
     (Inr \<lparr>generators = [4], parrots = [5, 6, 7],
           generator_to_parrot = [(4, 5), (4, 6), (4, 7)],
           parrot_to_sampler = [(5, 1), (6, 2), (7, 3)],
           connection_weights = [1 / 1000, 1 / 1000, 1 / 1000]\<rparr>,
      \<lparr>Models = [''poisson_generator'', ''sinusoidal_poisson_generator'', ''parrot_neuron''],
       num_nodes = 7,
       calls = [Create ''sinusoidal_poisson_generator'' 1,
                Create ''parrot_neuron'' 3,
                SetStatus [4] [[(''rate'', 2000), (''amplitude'', 1000), (''frequency'', 5),
                                (''phase'', 0), (''start'', 0), (''stop'', float_info_max)]],
                Connect [4, 4, 4] [5, 6, 7] ''one_to_one'' None,
                Connect [5, 6, 7] [1, 2, 3] ''one_to_one''
                  (Some [1 / 1000, 1 / 1000, 1 / 1000])]\<rparr>)"
  (is "_ = ?result")
proof -
  have "create_nest (sinus_config True) id (SamplerList (three_samplers True)) nest0 =
          sinus_build id (SamplerList (three_samplers True)) (three_gathered True) nest0"
    by (simp add: create_nest_def sinus_gather_three)
  also have "\<dots> = ?result"
    by (simp add: sinus_build_def Let_def three_gathered_def group_three
      nest0_def nest_Create_def nest_Connect_one_to_one_def assign_idx_def
      take_idx_def nest_SetStatus_def connect_parrots_def cumsum_def idx_parrot_to_sampler_def
      np_where_def three_samplers_def sampler_sinus_def upt_conv_Cons)
  finally show ?thesis .
qed

end
